theory Spec2Isabelle
  imports Main "HOL-Library.Word" "HOL-Library.AList"
begin

section \<open>Values shared by both stream adapters\<close>

text \<open>
  The repository holds two adapters over a WebSocket connection, both subclasses of the
  library class \<open>BaseStream\<close>: \<open>WebSocketServerStream\<close>
  (\<open>server/src/websocket-stream.ts\<close>) and \<open>connectionClientStream\<close>
  (\<open>repro-client-ws.ts\<close>). A \<open>Buffer\<close> is a list of bytes. The \<open>code\<close> property of a
  JavaScript error is untyped: it may be missing, a number, or a string (Node's system
  errors carry strings). Console output is not part of the model: no branch of the
  source depends on it. Calls on the WebSocket connection itself (\<open>send\<close>, \<open>close\<close>,
  \<open>drop\<close>) belong to the transport libraries; the model records them in program order.
  \<open>send\<close>, \<open>close()\<close> and \<open>close(1000)\<close> return without running any listener. What the
  connection does during a \<open>close\<close> or \<open>drop\<close> that is given the code and message of an
  error is an input of the model (see \<open>reaction\<close> below).
\<close>

type_synonym bytes = "8 word list"

datatype js_value = Undefined | Num int | Str string

record js_error =
  err_message :: string
  err_code :: js_value

text \<open>\<open>new Error(message)\<close>: an absent message gives the empty string; no \<open>code\<close> yet.\<close>

definition new_Error :: "string option \<Rightarrow> js_error" where
  "new_Error msg =
     \<lparr>err_message = (case msg of None \<Rightarrow> [] | Some m \<Rightarrow> m), err_code = Undefined\<rparr>"

text \<open>What \<open>write\<close> and \<open>close\<close> throw, themselves or by passing on what the connection throws.\<close>

datatype thrown = ObjectDisposedError | TypeError string | RangeError string

text \<open>Calls made on the underlying connection, with their arguments.\<close>

datatype transport_call =
    WsSend bytes
  | WsClose js_value "string option"
  | WsDrop js_value "string option"

text \<open>
  The sinks of \<open>BaseStream\<close>: \<open>onData\<close>, \<open>onEnd\<close>, \<open>onError\<close> and the \<open>closedEmitter\<close>,
  whose event carries the optional error.
\<close>

datatype notification =
    OnData bytes
  | OnEnd
  | OnError js_error
  | ClosedFire "js_error option"

text \<open>
  The trace lists, in program order, what the adapter's own code does: calls on the
  connection, notifications, and the assignment \<open>this.disposed = true\<close>.
\<close>

datatype effect =
    Transport transport_call
  | Notify notification
  | Assign_disposed

record adapter =
  disposed :: bool
  trace :: "effect list"

definition emit :: "effect \<Rightarrow> adapter \<Rightarrow> adapter" where
  "emit e s = s\<lparr>trace := trace s @ [e]\<rparr>"

definition onData :: "bytes \<Rightarrow> adapter \<Rightarrow> adapter" where
  "onData b = emit (Notify (OnData b))"

definition onEnd :: "adapter \<Rightarrow> adapter" where
  "onEnd = emit (Notify OnEnd)"

definition onError :: "js_error \<Rightarrow> adapter \<Rightarrow> adapter" where
  "onError e = emit (Notify (OnError e))"

definition closedEmitter_fire :: "js_error option \<Rightarrow> adapter \<Rightarrow> adapter" where
  "closedEmitter_fire e = emit (Notify (ClosedFire e))"

text \<open>
  Modelled from the spec: \<open>BaseStream.dispose\<close>, the library method both adapters reach
  through \<open>super.dispose()\<close>, is not in the sources. The spec's data model gives the adapter
  a \<open>disposed\<close> flag that only goes from false to true, and says of \<open>dispose()\<close> that it
  "marks disposed": the method sets the flag and does nothing else the adapter can see.
\<close>

definition BaseStream_dispose :: "adapter \<Rightarrow> adapter" where
  "BaseStream_dispose s = s\<lparr>disposed := True\<rparr>"

text \<open>
  The adapter as a constructor that succeeds leaves it (the server's constructor throws
  when it is given no connection): not disposed, and nothing done yet.
\<close>

definition fresh :: adapter where
  "fresh = \<lparr>disposed = False, trace = []\<rparr>"

text \<open>\<open>!code\<close> for \<open>code?: number\<close>: true when the code is absent or zero.\<close>

definition not_code :: "int option \<Rightarrow> bool" where
  "not_code code = (case code of None \<Rightarrow> True | Some c \<Rightarrow> c = 0)"

text \<open>
  What the connection does while \<open>close(error)\<close> is inside its call
  \<open>drop(code, message)\<close> (server) or \<open>close(code, message)\<close> (client). The libraries are
  not part of the sources, so the model does not decide this; it is given with the call.
  The call may return and run nothing; it may throw (the \<open>ws\<close> package throws a
  \<open>TypeError\<close> for a code that is not a number or not a valid status code, and a
  \<open>RangeError\<close> for a message that is too long); or it may dispatch the connection's
  \<open>close\<close> event to the listeners before it returns (\<open>drop\<close> of the \<open>websocket\<close> package
  does, with the code and the description it was given). The adapter's own \<open>close\<close>
  listener then runs inside the call. A call that throws leaves no entry in the trace, and
  the exception leaves the adapter's method at that statement.
\<close>

datatype reaction =
    Returns
  | Throws thrown
  | Dispatches_close "int option" "string option"

definition react ::
    "reaction \<Rightarrow> (int option \<Rightarrow> string option \<Rightarrow> adapter \<Rightarrow> adapter) \<Rightarrow>
     transport_call \<Rightarrow> adapter \<Rightarrow> thrown + adapter" where
  "react r on_close c s =
     (case r of
        Returns \<Rightarrow> Inr (emit (Transport c) s)
      | Throws x \<Rightarrow> Inl x
      | Dispatches_close code reason \<Rightarrow> Inr (on_close code reason (emit (Transport c) s)))"


section \<open>WebSocketServerStream\<close>

text \<open>A message of the \<open>websocket\<close> package: \<open>data.type\<close> is \<open>utf8\<close> or \<open>binary\<close>.\<close>

datatype ws_message = Utf8 string | Binary bytes

definition WebSocketServerStream_on_message :: "ws_message \<Rightarrow> adapter \<Rightarrow> adapter" where
  "WebSocketServerStream_on_message data s =
     (case data of Binary b \<Rightarrow> onData b s | Utf8 _ \<Rightarrow> s)"

definition WebSocketServerStream_on_close ::
    "int option \<Rightarrow> string option \<Rightarrow> adapter \<Rightarrow> adapter" where
  "WebSocketServerStream_on_close code reason s =
     (if code = None \<or> not_code code then onEnd s
      else onError ((new_Error reason)
             \<lparr>err_code := (case code of None \<Rightarrow> Undefined | Some c \<Rightarrow> Num c)\<rparr>) s)"

definition WebSocketServerStream_on_error :: "js_error \<Rightarrow> adapter \<Rightarrow> adapter" where
  "WebSocketServerStream_on_error error s = onError error s"

text \<open>\<open>!data\<close> holds for an absent buffer only: an empty \<open>Buffer\<close> is an object, hence truthy.\<close>

definition WebSocketServerStream_write :: "bytes option \<Rightarrow> adapter \<Rightarrow> thrown + adapter" where
  "WebSocketServerStream_write data s =
     (case data of
        None \<Rightarrow> Inl (TypeError ''Data is required.'')
      | Some b \<Rightarrow>
          if disposed s then Inl ObjectDisposedError
          else Inr (emit (Transport (WsSend b)) s))"

text \<open>
  \<open>close(error?)\<close>: the flag test, the call on the connection, then the three statements
  that set the flag, fire the closed event and signal the error. When the call on the
  connection throws, the three statements are not reached.
\<close>

definition WebSocketServerStream_close ::
    "js_error option \<Rightarrow> reaction \<Rightarrow> adapter \<Rightarrow> thrown + adapter" where
  "WebSocketServerStream_close error r s =
     (if disposed s then Inl ObjectDisposedError
      else
        case (case error of
                None \<Rightarrow> Inr (emit (Transport (WsClose Undefined None)) s)
              | Some e \<Rightarrow>
                  react r WebSocketServerStream_on_close
                    (WsDrop (case err_code e of Num c \<Rightarrow> Num c | _ \<Rightarrow> Undefined)
                       (Some (err_message e))) s) of
          Inl x \<Rightarrow> Inl x
        | Inr s1 \<Rightarrow>
            let s2 = emit Assign_disposed (s1\<lparr>disposed := True\<rparr>);
                s3 = closedEmitter_fire error s2
            in Inr (onError
                     (case error of None \<Rightarrow> new_Error (Some ''Stream closed.'') | Some e \<Rightarrow> e)
                     s3))"

definition WebSocketServerStream_dispose :: "adapter \<Rightarrow> adapter" where
  "WebSocketServerStream_dispose s =
     BaseStream_dispose
       (if \<not> disposed s then emit (Transport (WsClose Undefined None)) s else s)"


section \<open>connectionClientStream\<close>

text \<open>
  The \<open>ws\<close> package hands the listener the raw data and an \<open>isBinary\<close> flag. The client
  opens its socket with the default binary type, so the data is a \<open>Buffer\<close>; the listener
  also accepts an \<open>ArrayBuffer\<close>, which it wraps.
\<close>

datatype raw_data = Buffer bytes | ArrayBuffer bytes

definition raw_bytes :: "raw_data \<Rightarrow> bytes" where
  "raw_bytes data = (case data of Buffer b \<Rightarrow> b | ArrayBuffer b \<Rightarrow> b)"

definition connectionClientStream_on_message ::
    "raw_data \<Rightarrow> bool \<Rightarrow> adapter \<Rightarrow> adapter" where
  "connectionClientStream_on_message data isBinary s =
     (if isBinary then onData (raw_bytes data) s else s)"

definition connectionClientStream_on_close ::
    "int option \<Rightarrow> string option \<Rightarrow> adapter \<Rightarrow> adapter" where
  "connectionClientStream_on_close code reason s =
     (if not_code code then onEnd s
      else onError ((new_Error reason)
             \<lparr>err_code := Num (case code of None \<Rightarrow> 1011 | Some c \<Rightarrow> c)\<rparr>) s)"

definition connectionClientStream_write :: "bytes option \<Rightarrow> adapter \<Rightarrow> thrown + adapter" where
  "connectionClientStream_write data s =
     (if disposed s then Inl ObjectDisposedError
      else case data of
        None \<Rightarrow> Inl (TypeError ''Data is required.'')
      | Some b \<Rightarrow> Inr (emit (Transport (WsSend b)) s))"

definition connectionClientStream_close ::
    "js_error option \<Rightarrow> reaction \<Rightarrow> adapter \<Rightarrow> thrown + adapter" where
  "connectionClientStream_close error r s =
     (if disposed s then Inl ObjectDisposedError
      else
        case (case error of
                None \<Rightarrow> Inr (emit (Transport (WsClose (Num 1000) None)) s)
              | Some e \<Rightarrow>
                  react r connectionClientStream_on_close
                    (WsClose (case err_code e of Undefined \<Rightarrow> Num 1011 | v \<Rightarrow> v)
                       (Some (err_message e))) s) of
          Inl x \<Rightarrow> Inl x
        | Inr s1 \<Rightarrow>
            let s2 = emit Assign_disposed (s1\<lparr>disposed := True\<rparr>);
                s3 = closedEmitter_fire error s2
            in Inr (onError
                     (case error of None \<Rightarrow> new_Error (Some ''Stream closed.'') | Some e \<Rightarrow> e)
                     s3))"

definition connectionClientStream_dispose :: "adapter \<Rightarrow> adapter" where
  "connectionClientStream_dispose s =
     BaseStream_dispose
       (if \<not> disposed s then emit (Transport (WsClose Undefined None)) s else s)"


section \<open>Events and calls in sequence\<close>

text \<open>
  Everything runs on one event loop: the connection's events and the session layer's calls
  reach the adapter one at a time. A call that throws does so before it has touched the
  adapter, so the adapter is unchanged by it. A \<open>close\<close> comes with the connection's
  reaction, which matters only when an error is passed.
\<close>

datatype 'm transport_event =
    Message 'm
  | CloseEvent "int option" "string option"
  | ErrorEvent js_error

datatype call = Write "bytes option" | Close "js_error option" reaction | Dispose

datatype 'm input = Incoming "'m transport_event" | Call call

text \<open>The three listeners the server constructor registers.\<close>

definition WebSocketServerStream_receive ::
    "ws_message transport_event \<Rightarrow> adapter \<Rightarrow> adapter" where
  "WebSocketServerStream_receive ev s =
     (case ev of
        Message data \<Rightarrow> WebSocketServerStream_on_message data s
      | CloseEvent code reason \<Rightarrow> WebSocketServerStream_on_close code reason s
      | ErrorEvent error \<Rightarrow> WebSocketServerStream_on_error error s)"

text \<open>
  The client constructor registers a \<open>message\<close> and a \<open>close\<close> listener and none for
  \<open>error\<close>: an error event of the connection reaches no code of the adapter.
\<close>

definition connectionClientStream_receive ::
    "(raw_data \<times> bool) transport_event \<Rightarrow> adapter \<Rightarrow> adapter" where
  "connectionClientStream_receive ev s =
     (case ev of
        Message (data, isBinary) \<Rightarrow> connectionClientStream_on_message data isBinary s
      | CloseEvent code reason \<Rightarrow> connectionClientStream_on_close code reason s
      | ErrorEvent error \<Rightarrow> s)"

definition WebSocketServerStream_call :: "call \<Rightarrow> adapter \<Rightarrow> thrown + adapter" where
  "WebSocketServerStream_call c s =
     (case c of
        Write data \<Rightarrow> WebSocketServerStream_write data s
      | Close error r \<Rightarrow> WebSocketServerStream_close error r s
      | Dispose \<Rightarrow> Inr (WebSocketServerStream_dispose s))"

definition connectionClientStream_call :: "call \<Rightarrow> adapter \<Rightarrow> thrown + adapter" where
  "connectionClientStream_call c s =
     (case c of
        Write data \<Rightarrow> connectionClientStream_write data s
      | Close error r \<Rightarrow> connectionClientStream_close error r s
      | Dispose \<Rightarrow> Inr (connectionClientStream_dispose s))"

definition survive :: "adapter \<Rightarrow> thrown + adapter \<Rightarrow> adapter" where
  "survive s r = (case r of Inl _ \<Rightarrow> s | Inr s' \<Rightarrow> s')"

definition WebSocketServerStream_step :: "ws_message input \<Rightarrow> adapter \<Rightarrow> adapter" where
  "WebSocketServerStream_step i s =
     (case i of
        Incoming ev \<Rightarrow> WebSocketServerStream_receive ev s
      | Call c \<Rightarrow> survive s (WebSocketServerStream_call c s))"

definition connectionClientStream_step :: "(raw_data \<times> bool) input \<Rightarrow> adapter \<Rightarrow> adapter" where
  "connectionClientStream_step i s =
     (case i of
        Incoming ev \<Rightarrow> connectionClientStream_receive ev s
      | Call c \<Rightarrow> survive s (connectionClientStream_call c s))"

text \<open>Reading a trace: the buffers handed to \<open>onData\<close>, and the closes of the connection.\<close>

fun data_delivered :: "effect list \<Rightarrow> bytes list" where
  "data_delivered [] = []"
| "data_delivered (Notify (OnData b) # es) = b # data_delivered es"
| "data_delivered (_ # es) = data_delivered es"

fun transport_closes :: "effect list \<Rightarrow> nat" where
  "transport_closes [] = 0"
| "transport_closes (Transport (WsClose _ _) # es) = Suc (transport_closes es)"
| "transport_closes (Transport (WsDrop _ _) # es) = Suc (transport_closes es)"
| "transport_closes (_ # es) = transport_closes es"


text \<open>
  The binary payloads among the inputs, in the order received: for the server the
  \<open>binaryData\<close> of a binary message, for the client the bytes of the \<open>Buffer\<close> or
  \<open>ArrayBuffer\<close> that came with \<open>isBinary\<close> set.
\<close>

fun server_binary :: "ws_message input list \<Rightarrow> bytes list" where
  "server_binary [] = []"
| "server_binary (Incoming (Message (Binary b)) # is) = b # server_binary is"
| "server_binary (_ # is) = server_binary is"

fun client_binary :: "(raw_data \<times> bool) input list \<Rightarrow> bytes list" where
  "client_binary [] = []"
| "client_binary (Incoming (Message (Buffer b, True)) # is) = b # client_binary is"
| "client_binary (Incoming (Message (ArrayBuffer b, True)) # is) = b # client_binary is"
| "client_binary (_ # is) = client_binary is"

section \<open>The client's session map and the teardown on process exit\<close>

text \<open>
  A session of the SSH library is opaque here: a handle. A JavaScript \<open>Map\<close> keeps one
  entry per key in insertion order (\<open>set\<close> on a present key replaces the value in place,
  otherwise appends), which is an association list under \<open>AList.update\<close> and
  \<open>AList.delete\<close>. The client state holds the module-level \<open>sessionMap\<close> and, in call
  order, the sessions on which \<open>close(SshDisconnectReason.byApplication)\<close> was called.
\<close>

datatype session = Session nat

type_synonym session_map = "(string \<times> session) list"

record client_state =
  sessionMap :: session_map
  closed_sessions :: "session list"

definition session_close :: "session \<Rightarrow> client_state \<Rightarrow> client_state" where
  "session_close s st = st\<lparr>closed_sessions := closed_sessions st @ [s]\<rparr>"

text \<open>
  \<open>closeSessions(sessions?)\<close> walks a snapshot of the entries; an entry is skipped when a
  key list is given and does not include its key.
\<close>

fun closeSessions_forEach ::
    "string list option \<Rightarrow> session_map \<Rightarrow> client_state \<Rightarrow> client_state" where
  "closeSessions_forEach sessions [] st = st"
| "closeSessions_forEach sessions ((key, s) # entries) st =
     (if (case sessions of None \<Rightarrow> False | Some ks \<Rightarrow> key \<notin> set ks)
      then closeSessions_forEach sessions entries st
      else closeSessions_forEach sessions entries
             ((session_close s st)\<lparr>sessionMap := AList.delete key (sessionMap st)\<rparr>))"

definition closeSessions :: "string list option \<Rightarrow> client_state \<Rightarrow> client_state" where
  "closeSessions sessions st = closeSessions_forEach sessions (sessionMap st) st"

definition serverURI :: string where
  "serverURI = ''ws://localhost:8080''"




text \<open>
  The \<open>onExit\<close> callback \<open>testSSH\<close> passes to \<open>spawnProcess\<close>: it closes the session, deletes
  the key from the local map and calls \<open>closeSessions()\<close>, which reads the module-level
  map. Exit code and signal are only logged. \<open>session.close\<close> returns a promise, whose
  failure the callback catches: no statement of the callback throws.
\<close>

definition testSSH_onExit ::
    "session \<Rightarrow> session_map \<times> client_state \<Rightarrow> session_map \<times> client_state" where
  "testSSH_onExit session w =
     (AList.delete serverURI (fst w), closeSessions None (session_close session (snd w)))"


section \<open>spawnProcess: watching the spawned process\<close>

text \<open>
  A callback either returns or throws; in both cases it may have changed the world
  \<open>'w\<close> it runs in. \<open>options.onExit?.(code, signal)\<close> calls the callback when there is
  one. The first component of the state counts the calls.
\<close>

datatype 'w outcome = Returned 'w | Threw 'w

record exit_status =
  exitCode :: "int option"
  signalCode :: "string option"

type_synonym 'w exit_callback = "exit_status \<Rightarrow> 'w \<Rightarrow> 'w outcome"

definition call_onExit ::
    "'w exit_callback option \<Rightarrow> exit_status \<Rightarrow> nat \<times> 'w \<Rightarrow> (nat \<times> 'w) outcome" where
  "call_onExit onExit status nw =
     (case onExit of
        None \<Rightarrow> Returned nw
      | Some f \<Rightarrow>
          (case f status (snd nw) of
             Returned w \<Rightarrow> Returned (Suc (fst nw), w)
           | Threw w \<Rightarrow> Threw (Suc (fst nw), w)))"

text \<open>
  Under Bun: \<open>exited.then(A).catch(B)\<close>, where \<open>A\<close> and \<open>B\<close> both call the callback. When
  the promise is fulfilled \<open>A\<close> runs, and \<open>B\<close> runs too if \<open>A\<close> throws; when it is
  rejected only \<open>B\<close> runs.
\<close>

datatype settled = Fulfilled | Rejected

definition spawnProcess_Bun ::
    "'w exit_callback option \<Rightarrow> exit_status \<Rightarrow> settled \<Rightarrow> nat \<times> 'w \<Rightarrow> (nat \<times> 'w) outcome" where
  "spawnProcess_Bun onExit status exited nw =
     (case exited of
        Fulfilled \<Rightarrow>
          (case call_onExit onExit status nw of
             Returned r \<Rightarrow> Returned r
           | Threw r \<Rightarrow> call_onExit onExit status r)
      | Rejected \<Rightarrow> call_onExit onExit status nw)"

text \<open>
  Under Node: one listener, on the child's \<open>exit\<close> event; \<open>spawnProcess\<close> registers none
  for \<open>error\<close>, so an error event runs no code of the repository. The list holds the
  events the runtime dispatches for one child, in turn. (Node raises an error event that
  has no listener as an uncaught exception; in an actual run nothing is dispatched after
  it.)
\<close>

datatype child_event = Exit exit_status | Error js_error

definition state_of :: "'w outcome \<Rightarrow> 'w" where
  "state_of r = (case r of Returned w \<Rightarrow> w | Threw w \<Rightarrow> w)"

fun spawnProcess_Node ::
    "'w exit_callback option \<Rightarrow> child_event list \<Rightarrow> nat \<times> 'w \<Rightarrow> nat \<times> 'w" where
  "spawnProcess_Node onExit [] nw = nw"
| "spawnProcess_Node onExit (Exit status # evs) nw =
     spawnProcess_Node onExit evs (state_of (call_onExit onExit status nw))"
| "spawnProcess_Node onExit (Error e # evs) nw = spawnProcess_Node onExit evs nw"

fun exit_events :: "child_event list \<Rightarrow> nat" where
  "exit_events [] = 0"
| "exit_events (Exit _ # evs) = Suc (exit_events evs)"
| "exit_events (Error _ # evs) = exit_events evs"

text \<open>The callback of \<open>testSSH\<close> as \<open>spawnProcess\<close> receives it.\<close>

definition teardown :: "session \<Rightarrow> (session_map \<times> client_state) exit_callback" where
  "teardown session status w = Returned (testSSH_onExit session w)"


section \<open>The server's request handler\<close>

text \<open>
  \<open>session.onRequest\<close> in \<open>server/src/index.ts\<close>: for a port-forward request the handler
  sets \<open>e.isAuthorized = !!e.principal\<close>; any other request is left as it came. The
  principal of the library's event is an object or null.
\<close>

datatype principal = Principal string

datatype ssh_request = PortForwardRequestMessage string nat | OtherRequest

record request_event =
  request :: ssh_request
  principal :: "principal option"
  isAuthorized :: bool

definition onRequest :: "request_event \<Rightarrow> request_event" where
  "onRequest e =
     (case request e of
        PortForwardRequestMessage host port \<Rightarrow> e\<lparr>isAuthorized := (principal e \<noteq> None)\<rparr>
      | OtherRequest \<Rightarrow> e)"


section \<open>Reading traces\<close>

lemma data_delivered_append:
  "data_delivered (xs @ ys) = data_delivered xs @ data_delivered ys"
  by (induction xs rule: data_delivered.induct) simp_all

lemma transport_closes_append:
  "transport_closes (xs @ ys) = transport_closes xs + transport_closes ys"
  by (induction xs rule: transport_closes.induct) simp_all


lemmas sink_defs = emit_def onData_def onEnd_def onError_def closedEmitter_fire_def


section \<open>Incoming data\<close>

text \<open>No call of the session layer hands anything to \<open>onData\<close>, whether it throws or not.\<close>

lemma server_call_data:
  "data_delivered (trace (survive s (WebSocketServerStream_call c s))) = data_delivered (trace s)"
  by (cases c)
     (auto simp: WebSocketServerStream_call_def survive_def WebSocketServerStream_write_def
        WebSocketServerStream_close_def WebSocketServerStream_dispose_def BaseStream_dispose_def
        WebSocketServerStream_on_close_def react_def sink_defs data_delivered_append Let_def
        split: option.splits reaction.splits)

lemma client_call_data:
  "data_delivered (trace (survive s (connectionClientStream_call c s))) = data_delivered (trace s)"
  by (cases c)
     (auto simp: connectionClientStream_call_def survive_def connectionClientStream_write_def
        connectionClientStream_close_def connectionClientStream_dispose_def BaseStream_dispose_def
        connectionClientStream_on_close_def react_def sink_defs data_delivered_append Let_def
        split: option.splits reaction.splits)

lemma server_receive_data:
  "data_delivered (trace (WebSocketServerStream_receive ev s)) =
     data_delivered (trace s) @ server_binary [Incoming ev]"
proof (cases ev)
  case (Message m)
  then show ?thesis
    by (cases m)
       (simp_all add: WebSocketServerStream_receive_def WebSocketServerStream_on_message_def
          sink_defs data_delivered_append)
next
  case (CloseEvent code reason)
  then show ?thesis
    by (simp add: WebSocketServerStream_receive_def WebSocketServerStream_on_close_def
          sink_defs data_delivered_append)
next
  case (ErrorEvent e)
  then show ?thesis
    by (simp add: WebSocketServerStream_receive_def WebSocketServerStream_on_error_def
          sink_defs data_delivered_append)
qed

lemma client_receive_data:
  "data_delivered (trace (connectionClientStream_receive ev s)) =
     data_delivered (trace s) @ client_binary [Incoming ev]"
proof (cases ev)
  case (Message m)
  obtain data isBinary where m: "m = (data, isBinary)"
    by (cases m)
  show ?thesis
    using Message m
    by (cases data; cases isBinary)
       (simp_all add: connectionClientStream_receive_def connectionClientStream_on_message_def
          raw_bytes_def sink_defs data_delivered_append)
next
  case (CloseEvent code reason)
  then show ?thesis
    by (simp add: connectionClientStream_receive_def connectionClientStream_on_close_def
          sink_defs data_delivered_append)
next
  case (ErrorEvent e)
  then show ?thesis
    by (simp add: connectionClientStream_receive_def)
qed

lemma server_binary_Cons: "server_binary (i # is) = server_binary [i] @ server_binary is"
  by (cases "i # is" rule: server_binary.cases) auto

lemma client_binary_Cons: "client_binary (i # is) = client_binary [i] @ client_binary is"
  by (cases "i # is" rule: client_binary.cases) auto

lemma server_step_data:
  "data_delivered (trace (WebSocketServerStream_step i s)) =
     data_delivered (trace s) @ server_binary [i]"
  by (cases i) (simp_all add: WebSocketServerStream_step_def server_receive_data server_call_data)

lemma client_step_data:
  "data_delivered (trace (connectionClientStream_step i s)) =
     data_delivered (trace s) @ client_binary [i]"
  by (cases i) (simp_all add: connectionClientStream_step_def client_receive_data client_call_data)

lemma server_run_data:
  "data_delivered (trace (fold WebSocketServerStream_step ins s)) =
     data_delivered (trace s) @ server_binary ins"
proof (induction ins arbitrary: s)
  case Nil
  show ?case by simp
next
  case (Cons i ins)
  have "server_binary (i # ins) = server_binary [i] @ server_binary ins"
    by (rule server_binary_Cons)
  with Cons show ?case by (simp add: server_step_data)
qed

lemma client_run_data:
  "data_delivered (trace (fold connectionClientStream_step ins s)) =
     data_delivered (trace s) @ client_binary ins"
proof (induction ins arbitrary: s)
  case Nil
  show ?case by simp
next
  case (Cons i ins)
  have "client_binary (i # ins) = client_binary [i] @ client_binary ins"
    by (rule client_binary_Cons)
  with Cons show ?case by (simp add: client_step_data)
qed

text \<open>
  Claim C1. Whatever the adapter receives and whatever is called on it, in any
  interleaving and from any state, the buffers handed to the data sink are exactly the
  payloads of the binary messages received, one delivery per message, in the order of
  receipt and with the bytes unchanged; a message that is not binary adds no delivery.
  This holds for the server adapter and for the client adapter. The payloads are read off
  the inputs themselves (\<open>server_binary\<close>, \<open>client_binary\<close>), not through any function of
  the adapters.
\<close>

theorem C1_binary_messages_delivered_in_order:
  "data_delivered (trace (fold WebSocketServerStream_step ins s)) =
     data_delivered (trace s) @ server_binary ins
   \<and> data_delivered (trace (fold connectionClientStream_step cins s)) =
     data_delivered (trace s) @ client_binary cins"
  by (simp add: server_run_data client_run_data)


section \<open>Incoming close and error events\<close>



text \<open>
  Claim C9. An error event of the connection reaches the error sink of the server adapter
  as the very value received. The client adapter registers no listener for it: there the
  event changes nothing, and the error sink is not called.
\<close>

theorem C9_client_has_no_error_listener:
  "connectionClientStream_receive (ErrorEvent e) s = s
   \<and> WebSocketServerStream_receive (ErrorEvent e) s = s\<lparr>trace := trace s @ [Notify (OnError e)]\<rparr>"
  by (simp add: connectionClientStream_receive_def WebSocketServerStream_receive_def
        WebSocketServerStream_on_error_def onError_def emit_def)


section \<open>write\<close>

text \<open>
  Claim C3, refuted as stated: an empty buffer is not rejected. On an adapter that is not
  disposed, \<open>write\<close> of the empty buffer succeeds and sends one empty message.
\<close>

theorem C3_empty_buffer_is_sent:
  "WebSocketServerStream_write (Some []) fresh =
     Inr \<lparr>disposed = False, trace = [Transport (WsSend [])]\<rparr>
   \<and> connectionClientStream_write (Some []) fresh =
     Inr \<lparr>disposed = False, trace = [Transport (WsSend [])]\<rparr>"
  by (simp add: WebSocketServerStream_write_def connectionClientStream_write_def fresh_def emit_def)

text \<open>
  Claim C3, amended. On a disposed adapter \<open>write\<close> fails with \<open>ObjectDisposedError\<close>
  whenever a buffer is passed, and on the client adapter also when none is. On an adapter
  that is not disposed, \<open>write\<close> without a buffer fails with the \<open>TypeError\<close>
  "Data is required.", and \<open>write\<close> of any buffer, the empty one included, sends that
  buffer as exactly one message and changes nothing else.
\<close>

theorem C3_write_amended:
  "(disposed s \<longrightarrow>
      WebSocketServerStream_write (Some b) s = Inl ObjectDisposedError
      \<and> connectionClientStream_write data s = Inl ObjectDisposedError)
   \<and> (\<not> disposed s \<longrightarrow>
      WebSocketServerStream_write None s = Inl (TypeError ''Data is required.'')
      \<and> connectionClientStream_write None s = Inl (TypeError ''Data is required.'')
      \<and> WebSocketServerStream_write (Some b) s = Inr (s\<lparr>trace := trace s @ [Transport (WsSend b)]\<rparr>)
      \<and> connectionClientStream_write (Some b) s =
          Inr (s\<lparr>trace := trace s @ [Transport (WsSend b)]\<rparr>))"
  by (simp add: WebSocketServerStream_write_def connectionClientStream_write_def emit_def)

theorem C3_write_amended_witness:
  "disposed \<lparr>disposed = True, trace = []\<rparr>
   \<and> WebSocketServerStream_write (Some [1, 2]) \<lparr>disposed = True, trace = []\<rparr> =
       Inl ObjectDisposedError
   \<and> connectionClientStream_write None \<lparr>disposed = True, trace = []\<rparr> =
       Inl ObjectDisposedError
   \<and> \<not> disposed fresh
   \<and> WebSocketServerStream_write None fresh = Inl (TypeError ''Data is required.'')
   \<and> connectionClientStream_write None fresh = Inl (TypeError ''Data is required.'')
   \<and> WebSocketServerStream_write (Some [1, 2]) fresh =
       Inr \<lparr>disposed = False, trace = [Transport (WsSend [1, 2])]\<rparr>
   \<and> connectionClientStream_write (Some [1, 2]) fresh =
       Inr \<lparr>disposed = False, trace = [Transport (WsSend [1, 2])]\<rparr>"
  using C3_write_amended [of "\<lparr>disposed = True, trace = []\<rparr>" "[1, 2]" None]
    C3_write_amended [of fresh "[1, 2]" None]
  by (simp add: fresh_def)


section \<open>close\<close>

text \<open>
  When no error is passed, or when the connection returns from the call without running a
  listener, \<open>close\<close> on an adapter that is not disposed makes its call on the connection,
  sets the flag, fires the closed event and signals the error, in this order; on a
  disposed adapter it throws \<open>ObjectDisposedError\<close>.
\<close>

lemma close_order_when_connection_quiet:
  "(disposed s \<longrightarrow>
      WebSocketServerStream_close error r s = Inl ObjectDisposedError
      \<and> connectionClientStream_close error r s = Inl ObjectDisposedError)
   \<and> (\<not> disposed s \<and> (error = None \<or> r = Returns) \<longrightarrow>
      (\<exists>c. WebSocketServerStream_close error r s =
             Inr (s\<lparr>disposed := True,
                  trace := trace s @
                    [Transport c, Assign_disposed, Notify (ClosedFire error),
                     Notify (OnError
                       (case error of
                          None \<Rightarrow> \<lparr>err_message = ''Stream closed.'', err_code = Undefined\<rparr>
                        | Some e \<Rightarrow> e))]\<rparr>))
      \<and> (\<exists>c. connectionClientStream_close error r s =
             Inr (s\<lparr>disposed := True,
                  trace := trace s @
                    [Transport c, Assign_disposed, Notify (ClosedFire error),
                     Notify (OnError
                       (case error of
                          None \<Rightarrow> \<lparr>err_message = ''Stream closed.'', err_code = Undefined\<rparr>
                        | Some e \<Rightarrow> e))]\<rparr>)))"
  by (cases error)
     (auto simp: WebSocketServerStream_close_def connectionClientStream_close_def
        react_def new_Error_def sink_defs Let_def)

text \<open>
  Claim C4. The claim wants \<open>close\<close> on an adapter that is not disposed to set the flag,
  then fire the closed event, and only then signal the error. Both adapters write the
  three statements in that order, after the call on the connection, and the call can undo
  the order. On the server, \<open>drop\<close> dispatches the close event before it returns: the
  adapter's own close listener signals an error while the flag is still unset and before
  the closed event fires. On the client, the error's code goes to \<open>close\<close> of the
  connection unchecked: for a code the connection rejects, the call throws, and
  \<open>close(error)\<close> ends with that exception, the flag unset and nothing fired.
\<close>

theorem C4_connection_reaction_breaks_close:
  "WebSocketServerStream_close (Some \<lparr>err_message = ''boom'', err_code = Num 4000\<rparr>)
       (Dispatches_close (Some 4000) (Some ''boom'')) fresh =
     Inr \<lparr>disposed = True,
          trace =
            [Transport (WsDrop (Num 4000) (Some ''boom'')),
             Notify (OnError \<lparr>err_message = ''boom'', err_code = Num 4000\<rparr>),
             Assign_disposed,
             Notify (ClosedFire (Some \<lparr>err_message = ''boom'', err_code = Num 4000\<rparr>)),
             Notify (OnError \<lparr>err_message = ''boom'', err_code = Num 4000\<rparr>)]\<rparr>
   \<and> connectionClientStream_close (Some \<lparr>err_message = ''gone'', err_code = Num 1006\<rparr>)
       (Throws (TypeError ''First argument must be a valid error code number'')) fresh =
     Inl (TypeError ''First argument must be a valid error code number'')
   \<and> survive fresh
       (connectionClientStream_call
          (Close (Some \<lparr>err_message = ''gone'', err_code = Num 1006\<rparr>)
             (Throws (TypeError ''First argument must be a valid error code number'')))
          fresh) = fresh"
  by (simp add: WebSocketServerStream_close_def connectionClientStream_close_def
        connectionClientStream_call_def survive_def react_def
        WebSocketServerStream_on_close_def not_code_def new_Error_def sink_defs fresh_def Let_def)


section \<open>dispose, and what follows disposal\<close>

lemmas server_defs = WebSocketServerStream_call_def WebSocketServerStream_write_def
  WebSocketServerStream_close_def WebSocketServerStream_dispose_def
  WebSocketServerStream_receive_def WebSocketServerStream_on_message_def
  WebSocketServerStream_on_close_def WebSocketServerStream_on_error_def react_def

lemmas client_defs = connectionClientStream_call_def connectionClientStream_write_def
  connectionClientStream_close_def connectionClientStream_dispose_def
  connectionClientStream_receive_def connectionClientStream_on_message_def
  connectionClientStream_on_close_def react_def

text \<open>Nothing resets the flag: a disposed adapter stays disposed.\<close>

lemma server_step_disposed:
  "disposed s \<Longrightarrow> disposed (WebSocketServerStream_step i s)"
  by (cases i)
     (auto simp: WebSocketServerStream_step_def survive_def server_defs BaseStream_dispose_def
        sink_defs Let_def
        split: transport_event.splits call.splits option.splits ws_message.splits reaction.splits)

lemma client_step_disposed:
  "disposed s \<Longrightarrow> disposed (connectionClientStream_step i s)"
  by (cases i)
     (auto simp: connectionClientStream_step_def survive_def client_defs BaseStream_dispose_def
        sink_defs Let_def
        split: transport_event.splits call.splits option.splits reaction.splits)

lemma server_run_disposed:
  "disposed s \<Longrightarrow> disposed (fold WebSocketServerStream_step ins s)"
  by (induction ins arbitrary: s) (simp_all add: server_step_disposed)

lemma client_run_disposed:
  "disposed s \<Longrightarrow> disposed (fold connectionClientStream_step ins s)"
  by (induction ins arbitrary: s) (simp_all add: client_step_disposed)

text \<open>
  \<open>dispose\<close> is idempotent and has no failing path. On an adapter that is not disposed it
  closes the connection with no code and no reason and leaves the adapter disposed; on a
  disposed adapter it changes nothing. After \<open>dispose\<close> the adapter stays disposed
  whatever is received or called next, and on a disposed adapter every \<open>close\<close>, every
  \<open>write\<close> of the client adapter and every \<open>write\<close> of the server adapter that passes a
  buffer throws \<open>ObjectDisposedError\<close>.
\<close>

lemma dispose_idempotent_and_final:
  "WebSocketServerStream_dispose (WebSocketServerStream_dispose s) = WebSocketServerStream_dispose s
   \<and> connectionClientStream_dispose (connectionClientStream_dispose s) =
       connectionClientStream_dispose s
   \<and> WebSocketServerStream_call Dispose s = Inr (WebSocketServerStream_dispose s)
   \<and> connectionClientStream_call Dispose s = Inr (connectionClientStream_dispose s)
   \<and> (\<not> disposed s \<longrightarrow>
        WebSocketServerStream_dispose s =
          s\<lparr>disposed := True, trace := trace s @ [Transport (WsClose Undefined None)]\<rparr>
        \<and> connectionClientStream_dispose s =
          s\<lparr>disposed := True, trace := trace s @ [Transport (WsClose Undefined None)]\<rparr>)
   \<and> (disposed s \<longrightarrow>
        WebSocketServerStream_dispose s = s \<and> connectionClientStream_dispose s = s)
   \<and> disposed (fold WebSocketServerStream_step ins (WebSocketServerStream_dispose s))
   \<and> disposed (fold connectionClientStream_step cins (connectionClientStream_dispose s))
   \<and> (disposed s \<longrightarrow>
        WebSocketServerStream_close error r s = Inl ObjectDisposedError
        \<and> connectionClientStream_close error r s = Inl ObjectDisposedError
        \<and> WebSocketServerStream_write (Some b) s = Inl ObjectDisposedError
        \<and> connectionClientStream_write data s = Inl ObjectDisposedError)"
proof -
  have d1: "disposed (WebSocketServerStream_dispose s)"
    by (simp add: WebSocketServerStream_dispose_def BaseStream_dispose_def)
  have d2: "disposed (connectionClientStream_dispose s)"
    by (simp add: connectionClientStream_dispose_def BaseStream_dispose_def)
  have run1: "disposed (fold WebSocketServerStream_step ins (WebSocketServerStream_dispose s))"
    using d1 by (rule server_run_disposed)
  have run2: "disposed (fold connectionClientStream_step cins (connectionClientStream_dispose s))"
    using d2 by (rule client_run_disposed)
  have rest:
    "WebSocketServerStream_dispose (WebSocketServerStream_dispose s) =
       WebSocketServerStream_dispose s"
    "connectionClientStream_dispose (connectionClientStream_dispose s) =
       connectionClientStream_dispose s"
    "WebSocketServerStream_call Dispose s = Inr (WebSocketServerStream_dispose s)"
    "connectionClientStream_call Dispose s = Inr (connectionClientStream_dispose s)"
    "\<not> disposed s \<longrightarrow>
        WebSocketServerStream_dispose s =
          s\<lparr>disposed := True, trace := trace s @ [Transport (WsClose Undefined None)]\<rparr>
        \<and> connectionClientStream_dispose s =
          s\<lparr>disposed := True, trace := trace s @ [Transport (WsClose Undefined None)]\<rparr>"
    "disposed s \<longrightarrow>
        WebSocketServerStream_dispose s = s \<and> connectionClientStream_dispose s = s"
    "disposed s \<longrightarrow>
        WebSocketServerStream_close error r s = Inl ObjectDisposedError
        \<and> connectionClientStream_close error r s = Inl ObjectDisposedError
        \<and> WebSocketServerStream_write (Some b) s = Inl ObjectDisposedError
        \<and> connectionClientStream_write data s = Inl ObjectDisposedError"
    by (simp_all add: WebSocketServerStream_dispose_def connectionClientStream_dispose_def
          WebSocketServerStream_call_def connectionClientStream_call_def
          WebSocketServerStream_close_def connectionClientStream_close_def
          WebSocketServerStream_write_def connectionClientStream_write_def
          BaseStream_dispose_def emit_def)
  from rest run1 run2 show ?thesis by blast
qed

text \<open>
  Claim C7. The claim wants every \<open>write\<close> and every \<open>close\<close> made after disposal to
  throw \<open>ObjectDisposedError\<close>. The client adapter's \<open>write\<close> and both adapters' \<open>close\<close>
  test the flag first and do so. The server adapter's \<open>write\<close> tests its argument
  first: called without a buffer on a disposed adapter it throws the \<open>TypeError\<close>
  "Data is required." instead.
\<close>

theorem C7_server_write_without_data_after_dispose:
  "disposed (WebSocketServerStream_dispose fresh)
   \<and> WebSocketServerStream_write None (WebSocketServerStream_dispose fresh) =
       Inl (TypeError ''Data is required.'')
   \<and> WebSocketServerStream_write None (WebSocketServerStream_dispose fresh) \<noteq>
       Inl ObjectDisposedError
   \<and> connectionClientStream_write None (connectionClientStream_dispose fresh) =
       Inl ObjectDisposedError
   \<and> WebSocketServerStream_close None Returns (WebSocketServerStream_dispose fresh) =
       Inl ObjectDisposedError"
  by (simp add: WebSocketServerStream_write_def connectionClientStream_write_def
        WebSocketServerStream_close_def WebSocketServerStream_dispose_def
        connectionClientStream_dispose_def BaseStream_dispose_def fresh_def emit_def)


section \<open>The connection is closed at most once\<close>

text \<open>
  The number of closes so far, plus one while the adapter is not yet disposed, never
  grows: a close of the connection is paid for by the flag.
\<close>

lemma server_step_closes:
  "transport_closes (trace (WebSocketServerStream_step i s))
     + (if disposed (WebSocketServerStream_step i s) then 0 else 1)
   \<le> transport_closes (trace s) + (if disposed s then 0 else 1)"
  by (cases i)
     (auto simp: WebSocketServerStream_step_def survive_def server_defs BaseStream_dispose_def
        sink_defs Let_def transport_closes_append
        split: transport_event.splits call.splits option.splits ws_message.splits reaction.splits)

lemma client_step_closes:
  "transport_closes (trace (connectionClientStream_step i s))
     + (if disposed (connectionClientStream_step i s) then 0 else 1)
   \<le> transport_closes (trace s) + (if disposed s then 0 else 1)"
  by (cases i)
     (auto simp: connectionClientStream_step_def survive_def client_defs BaseStream_dispose_def
        sink_defs Let_def transport_closes_append
        split: transport_event.splits call.splits option.splits reaction.splits)

lemma server_run_closes:
  "transport_closes (trace (fold WebSocketServerStream_step ins s))
     + (if disposed (fold WebSocketServerStream_step ins s) then 0 else 1)
   \<le> transport_closes (trace s) + (if disposed s then 0 else 1)"
proof (induction ins arbitrary: s)
  case Nil
  show ?case by simp
next
  case (Cons i ins)
  have "transport_closes (trace (fold WebSocketServerStream_step (i # ins) s))
     + (if disposed (fold WebSocketServerStream_step (i # ins) s) then 0 else 1)
     \<le> transport_closes (trace (WebSocketServerStream_step i s))
     + (if disposed (WebSocketServerStream_step i s) then 0 else 1)"
    using Cons [of "WebSocketServerStream_step i s"] by simp
  also have "\<dots> \<le> transport_closes (trace s) + (if disposed s then 0 else 1)"
    by (rule server_step_closes)
  finally show ?case .
qed

lemma client_run_closes:
  "transport_closes (trace (fold connectionClientStream_step ins s))
     + (if disposed (fold connectionClientStream_step ins s) then 0 else 1)
   \<le> transport_closes (trace s) + (if disposed s then 0 else 1)"
proof (induction ins arbitrary: s)
  case Nil
  show ?case by simp
next
  case (Cons i ins)
  have "transport_closes (trace (fold connectionClientStream_step (i # ins) s))
     + (if disposed (fold connectionClientStream_step (i # ins) s) then 0 else 1)
     \<le> transport_closes (trace (connectionClientStream_step i s))
     + (if disposed (connectionClientStream_step i s) then 0 else 1)"
    using Cons [of "connectionClientStream_step i s"] by simp
  also have "\<dots> \<le> transport_closes (trace s) + (if disposed s then 0 else 1)"
    by (rule client_step_closes)
  finally show ?case .
qed

text \<open>
  Claim C10. Over any sequence of calls and events on one adapter, starting from its
  construction, the connection's \<open>close\<close> or \<open>drop\<close> is called at most once. In particular
  a \<open>dispose\<close> after a \<open>close\<close> that succeeded does not close the connection again, and
  neither does a second \<open>dispose\<close>. This holds whatever the connection does during the
  call of a \<open>close\<close> that succeeds; a \<open>close\<close> that fails because the connection threw is
  not among the successful calls and adds nothing to the count.
\<close>

theorem C10_transport_closed_at_most_once:
  "transport_closes (trace (fold WebSocketServerStream_step ins fresh)) \<le> 1
   \<and> transport_closes (trace (fold connectionClientStream_step cins fresh)) \<le> 1
   \<and> (WebSocketServerStream_close error r s = Inr s' \<longrightarrow>
        transport_closes (trace (WebSocketServerStream_dispose s')) = transport_closes (trace s'))
   \<and> (connectionClientStream_close error r s = Inr t' \<longrightarrow>
        transport_closes (trace (connectionClientStream_dispose t')) = transport_closes (trace t'))
   \<and> transport_closes (trace (WebSocketServerStream_dispose (WebSocketServerStream_dispose s))) =
       transport_closes (trace (WebSocketServerStream_dispose s))
   \<and> transport_closes (trace (connectionClientStream_dispose (connectionClientStream_dispose s))) =
       transport_closes (trace (connectionClientStream_dispose s))"
proof -
  have a: "transport_closes (trace (fold WebSocketServerStream_step ins fresh)) \<le> 1"
    using server_run_closes [of ins fresh] by (simp add: fresh_def split: if_splits)
  have b: "transport_closes (trace (fold connectionClientStream_step cins fresh)) \<le> 1"
    using client_run_closes [of cins fresh] by (simp add: fresh_def split: if_splits)
  have c: "WebSocketServerStream_close error r s = Inr s' \<longrightarrow>
        transport_closes (trace (WebSocketServerStream_dispose s')) = transport_closes (trace s')"
    by (auto simp: WebSocketServerStream_close_def WebSocketServerStream_dispose_def
          BaseStream_dispose_def sink_defs Let_def split: if_splits sum.splits)
  have d: "connectionClientStream_close error r s = Inr t' \<longrightarrow>
        transport_closes (trace (connectionClientStream_dispose t')) = transport_closes (trace t')"
    by (auto simp: connectionClientStream_close_def connectionClientStream_dispose_def
          BaseStream_dispose_def sink_defs Let_def split: if_splits sum.splits)
  have e: "transport_closes (trace (WebSocketServerStream_dispose (WebSocketServerStream_dispose s))) =
       transport_closes (trace (WebSocketServerStream_dispose s))"
    by (simp add: WebSocketServerStream_dispose_def BaseStream_dispose_def)
  have f: "transport_closes (trace (connectionClientStream_dispose (connectionClientStream_dispose s))) =
       transport_closes (trace (connectionClientStream_dispose s))"
    by (simp add: connectionClientStream_dispose_def BaseStream_dispose_def)
  from a b c d e f show ?thesis by blast
qed

theorem C10_transport_closed_at_most_once_witness:
  "WebSocketServerStream_close None Returns fresh =
     Inr \<lparr>disposed = True,
          trace = [Transport (WsClose Undefined None), Assign_disposed, Notify (ClosedFire None),
            Notify (OnError \<lparr>err_message = ''Stream closed.'', err_code = Undefined\<rparr>)]\<rparr>
   \<and> transport_closes (trace (WebSocketServerStream_dispose
        \<lparr>disposed = True,
         trace = [Transport (WsClose Undefined None), Assign_disposed, Notify (ClosedFire None),
           Notify (OnError \<lparr>err_message = ''Stream closed.'', err_code = Undefined\<rparr>)]\<rparr>)) = 1
   \<and> connectionClientStream_close None Returns fresh =
     Inr \<lparr>disposed = True,
          trace = [Transport (WsClose (Num 1000) None), Assign_disposed, Notify (ClosedFire None),
            Notify (OnError \<lparr>err_message = ''Stream closed.'', err_code = Undefined\<rparr>)]\<rparr>
   \<and> transport_closes (trace (connectionClientStream_dispose
        \<lparr>disposed = True,
         trace = [Transport (WsClose (Num 1000) None), Assign_disposed, Notify (ClosedFire None),
           Notify (OnError \<lparr>err_message = ''Stream closed.'', err_code = Undefined\<rparr>)]\<rparr>)) = 1
   \<and> transport_closes (trace (fold WebSocketServerStream_step
        [Call (Close None Returns), Call Dispose, Call Dispose] fresh)) \<le> 1"
proof -
  have s: "WebSocketServerStream_close None Returns fresh =
     Inr \<lparr>disposed = True,
          trace = [Transport (WsClose Undefined None), Assign_disposed, Notify (ClosedFire None),
            Notify (OnError \<lparr>err_message = ''Stream closed.'', err_code = Undefined\<rparr>)]\<rparr>"
    by (simp add: WebSocketServerStream_close_def fresh_def sink_defs new_Error_def Let_def)
  have c: "connectionClientStream_close None Returns fresh =
     Inr \<lparr>disposed = True,
          trace = [Transport (WsClose (Num 1000) None), Assign_disposed, Notify (ClosedFire None),
            Notify (OnError \<lparr>err_message = ''Stream closed.'', err_code = Undefined\<rparr>)]\<rparr>"
    by (simp add: connectionClientStream_close_def fresh_def sink_defs new_Error_def Let_def)
  show ?thesis
    using s c
      C10_transport_closed_at_most_once
        [of "[Call (Close None Returns), Call Dispose, Call Dispose]" "[]" None Returns fresh
          "\<lparr>disposed = True,
            trace = [Transport (WsClose Undefined None), Assign_disposed, Notify (ClosedFire None),
              Notify (OnError \<lparr>err_message = ''Stream closed.'', err_code = Undefined\<rparr>)]\<rparr>"
          "\<lparr>disposed = True,
            trace = [Transport (WsClose (Num 1000) None), Assign_disposed, Notify (ClosedFire None),
              Notify (OnError \<lparr>err_message = ''Stream closed.'', err_code = Undefined\<rparr>)]\<rparr>"]
    by simp
qed


section \<open>Registering a session\<close>




section \<open>Authorizing a port-forward request\<close>

text \<open>
  Claim C6. For a port-forward request the handler's decision is true exactly when the
  event carries a principal, so it is false whenever the principal is missing. The
  decision depends on the event alone and the handler changes nothing but the decision:
  handling the event again gives the same event, hence the same decision.
\<close>

theorem C6_authorized_iff_principal:
  "(request e = PortForwardRequestMessage host port \<longrightarrow>
      isAuthorized (onRequest e) = (principal e \<noteq> None))
   \<and> (request e = PortForwardRequestMessage host port \<and> principal e = None \<longrightarrow>
      \<not> isAuthorized (onRequest e))
   \<and> onRequest (onRequest e) = onRequest e
   \<and> isAuthorized (onRequest (onRequest e)) = isAuthorized (onRequest e)
   \<and> request (onRequest e) = request e
   \<and> principal (onRequest e) = principal e"
  by (cases "request e") (simp_all add: onRequest_def)

theorem C6_authorized_iff_principal_witness:
  "isAuthorized (onRequest \<lparr>request = PortForwardRequestMessage ''127.0.0.1'' 2223,
       principal = Some (Principal ''user''), isAuthorized = False\<rparr>)
   \<and> \<not> isAuthorized (onRequest \<lparr>request = PortForwardRequestMessage ''127.0.0.1'' 2223,
       principal = None, isAuthorized = True\<rparr>)"
  using C6_authorized_iff_principal
      [of "\<lparr>request = PortForwardRequestMessage ''127.0.0.1'' 2223,
            principal = Some (Principal ''user''), isAuthorized = False\<rparr>" "''127.0.0.1''" 2223]
    C6_authorized_iff_principal
      [of "\<lparr>request = PortForwardRequestMessage ''127.0.0.1'' 2223,
            principal = None, isAuthorized = True\<rparr>" "''127.0.0.1''" 2223]
  by simp


section \<open>The exit callback\<close>

lemma call_onExit_returning:
  "call_onExit (Some (\<lambda>status w. Returned (f w))) status nw = Returned (Suc (fst nw), f (snd nw))"
  by (simp add: call_onExit_def)

text \<open>
  Under Node a callback that always returns runs once for each \<open>exit\<close> event reported,
  and error events do not count.
\<close>

lemma spawnProcess_Node_returning:
  "spawnProcess_Node (Some (\<lambda>status w. Returned (f w))) evs (n, w) =
     (n + exit_events evs, (f ^^ exit_events evs) w)"
proof (induction evs arbitrary: n w)
  case Nil
  show ?case by simp
next
  case (Cons ev evs)
  show ?case
  proof (cases ev)
    case (Exit status)
    then show ?thesis
      using Cons [of "Suc n" "f w"]
      by (simp add: call_onExit_returning state_of_def funpow_swap1)
  next
    case (Error e)
    then show ?thesis using Cons [of n w] by simp
  qed
qed

text \<open>
  The chain \<open>then(A).catch(B)\<close> guards against a rejected promise, and also catches what
  \<open>A\<close> itself throws: a callback that throws is called a second time. The callback of
  \<open>testSSH\<close> does not throw.
\<close>

lemma spawnProcess_Bun_throwing_callback:
  "spawnProcess_Bun (Some (\<lambda>status w. Threw w)) status Fulfilled (0, w) = Threw (2, w)"
  by (simp add: spawnProcess_Bun_def call_onExit_def numeral_2_eq_2)

text \<open>
  Claim C8. The callback that tears the session down is called exactly once for a
  watched process. Under Bun this holds whether the \<open>exited\<close> promise is fulfilled or
  rejected. Under Node it holds whenever the exit is dispatched once, however many error
  events are dispatched for the same child: they do not call it.
\<close>

theorem C8_teardown_fires_once:
  "spawnProcess_Bun (Some (teardown session)) status exited (0, w) =
     Returned (1, testSSH_onExit session w)
   \<and> (exit_events evs = 1 \<longrightarrow>
        spawnProcess_Node (Some (teardown session)) evs (0, w) = (1, testSSH_onExit session w))"
proof -
  have t: "teardown session = (\<lambda>status w. Returned (testSSH_onExit session w))"
    by (simp add: teardown_def fun_eq_iff)
  have bun: "spawnProcess_Bun (Some (teardown session)) status exited (0, w) =
     Returned (1, testSSH_onExit session w)"
    by (cases exited) (simp_all add: spawnProcess_Bun_def t call_onExit_returning)
  have node: "exit_events evs = 1 \<longrightarrow>
        spawnProcess_Node (Some (teardown session)) evs (0, w) = (1, testSSH_onExit session w)"
    by (simp add: t spawnProcess_Node_returning)
  from bun node show ?thesis by blast
qed

theorem C8_teardown_fires_once_witness:
  "exit_events
     [Exit \<lparr>exitCode = Some 0, signalCode = None\<rparr>,
      Error \<lparr>err_message = ''kill EPERM'', err_code = Str ''EPERM''\<rparr>] = 1
   \<and> spawnProcess_Node (Some (teardown (Session 1)))
       [Exit \<lparr>exitCode = Some 0, signalCode = None\<rparr>,
        Error \<lparr>err_message = ''kill EPERM'', err_code = Str ''EPERM''\<rparr>]
       (0, ([(serverURI, Session 1)], \<lparr>sessionMap = [], closed_sessions = []\<rparr>)) =
     (1, ([], \<lparr>sessionMap = [], closed_sessions = [Session 1]\<rparr>))
   \<and> spawnProcess_Bun (Some (teardown (Session 1)))
       \<lparr>exitCode = Some 0, signalCode = None\<rparr> Rejected
       (0, ([(serverURI, Session 1)], \<lparr>sessionMap = [], closed_sessions = []\<rparr>)) =
     Returned (1, ([], \<lparr>sessionMap = [], closed_sessions = [Session 1]\<rparr>))"
  using C8_teardown_fires_once
      [of "Session 1" "\<lparr>exitCode = Some 0, signalCode = None\<rparr>" Rejected
        "([(serverURI, Session 1)], \<lparr>sessionMap = [], closed_sessions = []\<rparr>)"
        "[Exit \<lparr>exitCode = Some 0, signalCode = None\<rparr>,
          Error \<lparr>err_message = ''kill EPERM'', err_code = Str ''EPERM''\<rparr>]"]
  by (simp add: testSSH_onExit_def closeSessions_def session_close_def)

end
